theory Spec2Isabelle
  imports Main "HOL-Library.Sublist"
begin

section \<open>Values exchanged with the cluster\<close>

text \<open>
  The programs of the repository are command-line clients of a cluster API. Each one parses
  its flags, builds a connection, issues a fixed sequence of calls and prints; every error is
  turned into a panic carrying the text of \<^verbatim>\<open>err.Error()\<close>.

  The objects below carry the fields the sources read or write, under the names the sources
  give them. Go's \<^verbatim>\<open>map[string]string\<close> is a partial map, a pointer that may be
  nil is an \<open>option\<close>, and the 32- and 64-bit integers are \<open>int\<close>: the only numbers
  that occur are the literals 2, 100, 500, 8080 and 30080, and no arithmetic is done on them.
\<close>

type_synonym err = string

datatype serializer = Codecs

record config =
  Host :: string
  APIPath :: string
  GroupVersion :: "(string \<times> string) option"
  NegotiatedSerializer :: "serializer option"

record gvr =
  gvr_Group :: string
  gvr_Version :: string
  gvr_Resource :: string

record list_options =
  Limit :: int

record delete_options =
  GracePeriodSeconds :: "int option"
  Preconditions :: "(string option \<times> string option) option"
  OrphanDependents :: "bool option"
  PropagationPolicy :: "string option"
  DryRun :: "string list"

record pod =
  pod_Namespace :: string
  pod_Phase :: string
  pod_Name :: string

record namespace =
  ns_Name :: string

record container_port =
  cp_Name :: string
  cp_Protocol :: string
  cp_ContainerPort :: int

record container =
  ct_Name :: string
  ct_Image :: string
  ct_ImagePullPolicy :: string
  ct_Ports :: "container_port list"

record deployment =
  dp_Name :: string
  dp_Replicas :: "int option"
  dp_Selector_MatchLabels :: "string \<rightharpoonup> string"
  dp_Template_Labels :: "string \<rightharpoonup> string"
  dp_Template_Containers :: "container list"

record service_port =
  sp_Name :: string
  sp_Port :: int
  sp_NodePort :: int

record service =
  sv_Name :: string
  sv_Ports :: "service_port list"
  sv_Selector :: "string \<rightharpoonup> string"
  sv_Type :: string

text \<open>The constants of the client library that the sources name.\<close>

definition SchemeGroupVersion :: "string \<times> string" where
  "SchemeGroupVersion = ('''', ''v1'')"

definition ProtocolTCP :: string where
  "ProtocolTCP = ''TCP''"

definition ProtocolSCTP :: string where
  "ProtocolSCTP = ''SCTP''"

definition ServiceTypeNodePort :: string where
  "ServiceTypeNodePort = ''NodePort''"

section \<open>The collaborators\<close>

text \<open>
  The cluster and the client library are outside the repository, so they are a parameter of
  every program: a record of the library functions the sources call. A call on the cluster
  takes the cluster's state \<open>'w\<close> and returns its answer with the new state; the functions
  that only build a connection object answer from their argument. \<open>'u\<close> is the untyped
  list the dynamic client returns. Nothing is assumed about what these functions answer.
\<close>

record ('w, 'u) collaborator =
  BuildConfigFromFlags :: "string \<Rightarrow> string \<Rightarrow> err + config"
  dynamic_NewForConfig :: "config \<Rightarrow> err option"
  RESTClientFor :: "config \<Rightarrow> err option"
  kubernetes_NewForConfig :: "config \<Rightarrow> err option"
  dynamic_List :: "gvr \<Rightarrow> string \<Rightarrow> list_options \<Rightarrow> 'w \<Rightarrow> (err + 'u) \<times> 'w"
  FromUnstructured :: "'u \<Rightarrow> err + pod list"
  rest_Get :: "string \<Rightarrow> string \<Rightarrow> list_options \<Rightarrow> 'w \<Rightarrow> (err + pod list) \<times> 'w"
  Namespaces_List :: "list_options \<Rightarrow> 'w \<Rightarrow> (err + namespace list) \<times> 'w"
  Namespaces_Create :: "namespace \<Rightarrow> 'w \<Rightarrow> (err + namespace) \<times> 'w"
  Deployments_Create :: "string \<Rightarrow> deployment \<Rightarrow> 'w \<Rightarrow> (err + deployment) \<times> 'w"
  Services_Create :: "string \<Rightarrow> service \<Rightarrow> 'w \<Rightarrow> (err + service) \<times> 'w"
  Services_Delete :: "string \<Rightarrow> string \<Rightarrow> delete_options \<Rightarrow> 'w \<Rightarrow> err option \<times> 'w"
  Deployments_Delete :: "string \<Rightarrow> string \<Rightarrow> delete_options \<Rightarrow> 'w \<Rightarrow> err option \<times> 'w"
  Namespaces_Delete :: "string \<Rightarrow> delete_options \<Rightarrow> 'w \<Rightarrow> err option \<times> 'w"

text \<open>
  The process environment: the home directory, the flags given on the command line (a flag
  that is absent takes the default its declaration names) and \<^verbatim>\<open>filepath.Join\<close>.
  A command line that \<^verbatim>\<open>flag.Parse\<close> rejects ends the process before any of
  the code below, and is no run here.
\<close>

record process =
  HomeDir :: string
  flags :: "string \<rightharpoonup> string"
  filepath_Join :: "string list \<Rightarrow> string"

definition flag_String :: "process \<Rightarrow> string \<Rightarrow> string \<Rightarrow> string" where
  "flag_String p name dflt = (case flags p name of None \<Rightarrow> dflt | Some v \<Rightarrow> v)"

text \<open>
  All programs start the same way: the default of \<^verbatim>\<open>-kubeconfig\<close> is
  \<^verbatim>\<open>$HOME/.kube/config\<close> when there is a home directory and empty otherwise.
\<close>

definition kubeconfig_flag :: "process \<Rightarrow> string" where
  "kubeconfig_flag p =
     (if HomeDir p \<noteq> ''''
      then flag_String p ''kubeconfig'' (filepath_Join p [HomeDir p, ''.kube'', ''config''])
      else flag_String p ''kubeconfig'' '''')"

section \<open>What a run leaves behind\<close>

text \<open>
  A run is observed through the calls it issued on the cluster, in order, the
  \<^verbatim>\<open>fmt.Printf\<close> calls it made (format and arguments), the state it left the
  cluster in, and how it ended.
\<close>

datatype request =
    DynamicList gvr string list_options
  | RestGet string string list_options
  | NamespacesList list_options
  | NamespacesCreate namespace
  | DeploymentsCreate string deployment
  | ServicesCreate string service
  | ServicesDelete string string delete_options
  | DeploymentsDelete string string delete_options
  | NamespacesDelete string delete_options

datatype printf = Printf string "string list"

datatype outcome = Returned | Panicked err

record 'w run =
  world :: 'w
  calls :: "request list"
  stdout :: "printf list"

definition start :: "'w \<Rightarrow> 'w run" where
  "start w = \<lparr>world = w, calls = [], stdout = []\<rparr>"

definition issued :: "request \<Rightarrow> 'w \<Rightarrow> 'w run \<Rightarrow> 'w run" where
  "issued r w' s = s\<lparr>world := w', calls := calls s @ [r]\<rparr>"

definition printed :: "printf \<Rightarrow> 'w run \<Rightarrow> 'w run" where
  "printed l s = s\<lparr>stdout := stdout s @ [l]\<rparr>"

definition TAB :: char where
  "TAB = CHR 0x09"

definition NL :: char where
  "NL = CHR 0x0A"

section \<open>The dynamic lister\<close>

text \<open>\<^verbatim>\<open>src/dynamicClient/main.go\<close>, lines 18 to 93.\<close>

definition dynamic_header :: string where
  "dynamic_header = ''namespace'' @ [TAB] @ '' status'' @ [TAB, TAB] @ '' name'' @ [NL]"

definition dynamic_row :: "pod \<Rightarrow> printf" where
  "dynamic_row d =
     Printf (''%v'' @ [TAB] @ '' %v'' @ [TAB, TAB] @ '' %v'' @ [NL])
       [pod_Namespace d, pod_Phase d, pod_Name d]"

definition main_dynamic :: "process \<Rightarrow> ('w, 'u) collaborator \<Rightarrow> 'w \<Rightarrow> outcome \<times> 'w run" where
  "main_dynamic p k w =
     (let kubeconfig = kubeconfig_flag p in
      case BuildConfigFromFlags k '''' kubeconfig of
        Inl e \<Rightarrow> (Panicked e, start w)
      | Inr config \<Rightarrow>
          (case dynamic_NewForConfig k config of
             Some e \<Rightarrow> (Panicked e, start w)
           | None \<Rightarrow>
               (let gvr = \<lparr>gvr_Group = '''', gvr_Version = ''v1'', gvr_Resource = ''pods''\<rparr>;
                    opts = \<lparr>Limit = 100\<rparr>;
                    s1 = (\<lambda>w'. issued (DynamicList gvr ''kube-system'' opts) w' (start w)) in
                case dynamic_List k gvr ''kube-system'' opts w of
                  (Inl e, w') \<Rightarrow> (Panicked e, s1 w')
                | (Inr unstructObj, w') \<Rightarrow>
                    (case FromUnstructured k unstructObj of
                       Inl e \<Rightarrow> (Panicked e, s1 w')
                     | Inr items \<Rightarrow>
                         (Returned,
                          (s1 w')\<lparr>stdout := Printf dynamic_header [] # map dynamic_row items\<rparr>)))))"

section \<open>The typed REST lister\<close>

text \<open>
  \<^verbatim>\<open>src/restclientdemo-1/main.go\<close>, lines 19 to 68. The loop decodes every answer
  into the one \<^verbatim>\<open>result\<close> variable and prints its items before the next request;
  the model takes the items printed in an iteration to be the items of that iteration's
  answer. The annotated copy of this program in \<^verbatim>\<open>src/dynamicClient/main.go\<close>,
  lines 117 to 233, is not modelled.
\<close>

definition rest_header :: string where
  "rest_header = ''namespace'' @ [TAB] @ '' status'' @ [TAB] @ '' name'' @ [NL]"

definition rest_row :: "pod \<Rightarrow> printf" where
  "rest_row d =
     Printf (''%v'' @ [TAB] @ '' %v'' @ [TAB] @ '' %v'' @ [NL])
       [pod_Namespace d, pod_Phase d, pod_Name d]"

fun rest_loop :: "('w, 'u) collaborator \<Rightarrow> namespace list \<Rightarrow> 'w run \<Rightarrow> outcome \<times> 'w run" where
  "rest_loop k [] s = (Returned, s)"
| "rest_loop k (ns # rest) s =
     (let namespace = ns_Name ns; opts = \<lparr>Limit = 500\<rparr> in
      case rest_Get k namespace ''pods'' opts (world s) of
        (Inl e, w') \<Rightarrow> (Panicked e, issued (RestGet namespace ''pods'' opts) w' s)
      | (Inr items, w') \<Rightarrow>
          rest_loop k rest
            ((issued (RestGet namespace ''pods'' opts) w' s)
               \<lparr>stdout := stdout s @ map rest_row items\<rparr>))"

definition main_rest :: "process \<Rightarrow> ('w, 'u) collaborator \<Rightarrow> 'w \<Rightarrow> outcome \<times> 'w run" where
  "main_rest p k w =
     (let kubeconfig = kubeconfig_flag p in
      case BuildConfigFromFlags k '''' kubeconfig of
        Inl e \<Rightarrow> (Panicked e, start w)
      | Inr config0 \<Rightarrow>
          (let config = config0\<lparr>APIPath := ''api'',
                                GroupVersion := Some SchemeGroupVersion,
                                NegotiatedSerializer := Some Codecs\<rparr> in
           case RESTClientFor k config of
             Some e \<Rightarrow> (Panicked e, start w)
           | None \<Rightarrow>
               (case kubernetes_NewForConfig k config of
                  Some e \<Rightarrow> (Panicked e, start w)
                | None \<Rightarrow>
                    (case Namespaces_List k \<lparr>Limit = 0\<rparr> w of
                       (Inl e, w') \<Rightarrow>
                         (Panicked e, issued (NamespacesList \<lparr>Limit = 0\<rparr>) w' (start w))
                     | (Inr namespaces, w') \<Rightarrow>
                         rest_loop k namespaces
                           (printed (Printf rest_header [])
                              (issued (NamespacesList \<lparr>Limit = 0\<rparr>) w' (start w)))))))"

section \<open>The provisioner\<close>

text \<open>
  \<^verbatim>\<open>src/restclientdemo-1/main.go\<close> holds the provisioner twice: lines 410 to 559, and
  an annotated copy at lines 104 to 393. The two agree in \<^verbatim>\<open>main\<close>,
  \<^verbatim>\<open>clean\<close>, \<^verbatim>\<open>createNamespace\<close> and \<^verbatim>\<open>createService\<close>; they
  differ in the deployment they build, so \<^verbatim>\<open>createDeployment\<close> and
  \<^verbatim>\<open>main\<close> are given once for each.
\<close>

definition NAMESPACE :: string where
  "NAMESPACE = ''test-clientset''"

definition DEPLOYMENT_NAME :: string where
  "DEPLOYMENT_NAME = ''client-test-deployment''"

definition SERVICE_NAME :: string where
  "SERVICE_NAME = ''client-test-service''"

text \<open>
  The object literals of the provisioner, each under the name of the local variable that
  holds it: \<^verbatim>\<open>emptyDeleteOptions\<close> in \<^verbatim>\<open>clean\<close> is
  \<^verbatim>\<open>metav1.DeleteOptions{}\<close>, every field at its zero value.
\<close>

definition emptyDeleteOptions :: delete_options where
  "emptyDeleteOptions =
     \<lparr>GracePeriodSeconds = None, Preconditions = None, OrphanDependents = None,
      PropagationPolicy = None, DryRun = []\<rparr>"

text \<open>\<^verbatim>\<open>namespace\<close> in \<^verbatim>\<open>createNamespace\<close>, lines 467 to 471.\<close>

definition namespace_literal :: namespace where
  "namespace_literal = \<lparr>ns_Name = NAMESPACE\<rparr>"

text \<open>\<^verbatim>\<open>service\<close> in \<^verbatim>\<open>createService\<close>, lines 485 to 501.\<close>

definition service_literal :: service where
  "service_literal =
     \<lparr>sv_Name = SERVICE_NAME,
      sv_Ports = [\<lparr>sp_Name = ''http'', sp_Port = 8080, sp_NodePort = 30080\<rparr>],
      sv_Selector = [''app'' \<mapsto> ''tomcat''],
      sv_Type = ServiceTypeNodePort\<rparr>"

text \<open>
  \<^verbatim>\<open>deployment\<close> in \<^verbatim>\<open>createDeployment\<close>, lines 516 to 550: the literal
  names no \<^verbatim>\<open>Replicas\<close>, so the pointer is nil.
\<close>

definition deployment_literal :: deployment where
  "deployment_literal =
     \<lparr>dp_Name = DEPLOYMENT_NAME,
      dp_Replicas = None,
      dp_Selector_MatchLabels = [''app'' \<mapsto> ''tomcat''],
      dp_Template_Labels = [''app'' \<mapsto> ''tomcat''],
      dp_Template_Containers =
        [\<lparr>ct_Name = ''tomcat'',
          ct_Image = ''tomcat:8.0.18-jre8'',
          ct_ImagePullPolicy = ''IfNotPresent'',
          ct_Ports =
            [\<lparr>cp_Name = ''http'', cp_Protocol = ProtocolSCTP, cp_ContainerPort = 8080\<rparr>]\<rparr>]\<rparr>"

text \<open>
  \<^verbatim>\<open>deployment\<close> in the annotated copy of \<^verbatim>\<open>createDeployment\<close>, lines 342 to
  377: the same literal with \<^verbatim>\<open>Replicas: pointer.Int32Ptr(2)\<close>.
\<close>

definition deployment_literal_annotated :: deployment where
  "deployment_literal_annotated =
     \<lparr>dp_Name = DEPLOYMENT_NAME,
      dp_Replicas = Some 2,
      dp_Selector_MatchLabels = [''app'' \<mapsto> ''tomcat''],
      dp_Template_Labels = [''app'' \<mapsto> ''tomcat''],
      dp_Template_Containers =
        [\<lparr>ct_Name = ''tomcat'',
          ct_Image = ''tomcat:8.0.18-jre8'',
          ct_ImagePullPolicy = ''IfNotPresent'',
          ct_Ports =
            [\<lparr>cp_Name = ''http'', cp_Protocol = ProtocolSCTP, cp_ContainerPort = 8080\<rparr>]\<rparr>]\<rparr>"

definition clean :: "('w, 'u) collaborator \<Rightarrow> 'w run \<Rightarrow> outcome \<times> 'w run" where
  "clean k s =
     (case Services_Delete k NAMESPACE SERVICE_NAME emptyDeleteOptions (world s) of
        (Some e, w1) \<Rightarrow>
          (Panicked e, issued (ServicesDelete NAMESPACE SERVICE_NAME emptyDeleteOptions) w1 s)
      | (None, w1) \<Rightarrow>
          (let s1 = issued (ServicesDelete NAMESPACE SERVICE_NAME emptyDeleteOptions) w1 s in
           case Deployments_Delete k NAMESPACE DEPLOYMENT_NAME emptyDeleteOptions (world s1) of
             (Some e, w2) \<Rightarrow>
               (Panicked e,
                issued (DeploymentsDelete NAMESPACE DEPLOYMENT_NAME emptyDeleteOptions) w2 s1)
           | (None, w2) \<Rightarrow>
               (let s2 = issued (DeploymentsDelete NAMESPACE DEPLOYMENT_NAME emptyDeleteOptions)
                           w2 s1 in
                case Namespaces_Delete k NAMESPACE emptyDeleteOptions (world s2) of
                  (Some e, w3) \<Rightarrow>
                    (Panicked e, issued (NamespacesDelete NAMESPACE emptyDeleteOptions) w3 s2)
                | (None, w3) \<Rightarrow>
                    (Returned, issued (NamespacesDelete NAMESPACE emptyDeleteOptions) w3 s2))))"

definition createNamespace :: "('w, 'u) collaborator \<Rightarrow> 'w run \<Rightarrow> outcome \<times> 'w run" where
  "createNamespace k s =
     (case Namespaces_Create k namespace_literal (world s) of
        (Inl e, w') \<Rightarrow> (Panicked e, issued (NamespacesCreate namespace_literal) w' s)
      | (Inr result, w') \<Rightarrow>
          (Returned,
           printed (Printf (''Create namespace %s '' @ [NL]) [ns_Name result])
             (issued (NamespacesCreate namespace_literal) w' s)))"

definition createService :: "('w, 'u) collaborator \<Rightarrow> 'w run \<Rightarrow> outcome \<times> 'w run" where
  "createService k s =
     (case Services_Create k NAMESPACE service_literal (world s) of
        (Inl e, w') \<Rightarrow> (Panicked e, issued (ServicesCreate NAMESPACE service_literal) w' s)
      | (Inr result, w') \<Rightarrow>
          (Returned,
           printed (Printf (''Create service %s '' @ [NL]) [sv_Name result])
             (issued (ServicesCreate NAMESPACE service_literal) w' s)))"

text \<open>\<^verbatim>\<open>createDeployment\<close>, lines 513 to 559.\<close>

definition createDeployment :: "('w, 'u) collaborator \<Rightarrow> 'w run \<Rightarrow> outcome \<times> 'w run" where
  "createDeployment k s =
     (case Deployments_Create k NAMESPACE deployment_literal (world s) of
        (Inl e, w') \<Rightarrow>
          (Panicked e, issued (DeploymentsCreate NAMESPACE deployment_literal) w' s)
      | (Inr result, w') \<Rightarrow>
          (Returned,
           printed (Printf (''Create deployment %s '' @ [NL]) [dp_Name result])
             (issued (DeploymentsCreate NAMESPACE deployment_literal) w' s)))"

text \<open>\<^verbatim>\<open>createDeployment\<close> of the annotated copy, lines 322 to 393.\<close>

definition createDeployment_annotated ::
  "('w, 'u) collaborator \<Rightarrow> 'w run \<Rightarrow> outcome \<times> 'w run" where
  "createDeployment_annotated k s =
     (case Deployments_Create k NAMESPACE deployment_literal_annotated (world s) of
        (Inl e, w') \<Rightarrow>
          (Panicked e, issued (DeploymentsCreate NAMESPACE deployment_literal_annotated) w' s)
      | (Inr result, w') \<Rightarrow>
          (Returned,
           printed (Printf (''Create deployment %s '' @ [NL]) [dp_Name result])
             (issued (DeploymentsCreate NAMESPACE deployment_literal_annotated) w' s)))"

text \<open>
  \<^verbatim>\<open>main\<close>, lines 416 to 446. The three create functions are called one after the
  other; a panic in one of them ends the run there.
\<close>

definition main_provisioner ::
  "process \<Rightarrow> ('w, 'u) collaborator \<Rightarrow> 'w \<Rightarrow> outcome \<times> 'w run" where
  "main_provisioner p k w =
     (let kubeconfig = kubeconfig_flag p;
          operate = flag_String p ''operate'' ''create'' in
      case BuildConfigFromFlags k '''' kubeconfig of
        Inl e \<Rightarrow> (Panicked e, start w)
      | Inr config \<Rightarrow>
          (case kubernetes_NewForConfig k config of
             Some e \<Rightarrow> (Panicked e, start w)
           | None \<Rightarrow>
               (let s = printed (Printf (''operate is %v'' @ [NL]) [operate]) (start w) in
                if ''clean'' = operate then clean k s
                else
                  (case createNamespace k s of
                     (Panicked e, s1) \<Rightarrow> (Panicked e, s1)
                   | (Returned, s1) \<Rightarrow>
                       (case createDeployment k s1 of
                          (Panicked e, s2) \<Rightarrow> (Panicked e, s2)
                        | (Returned, s2) \<Rightarrow> createService k s2)))))"

text \<open>\<^verbatim>\<open>main\<close> of the annotated copy, lines 110 to 183.\<close>

definition main_provisioner_annotated ::
  "process \<Rightarrow> ('w, 'u) collaborator \<Rightarrow> 'w \<Rightarrow> outcome \<times> 'w run" where
  "main_provisioner_annotated p k w =
     (let kubeconfig = kubeconfig_flag p;
          operate = flag_String p ''operate'' ''create'' in
      case BuildConfigFromFlags k '''' kubeconfig of
        Inl e \<Rightarrow> (Panicked e, start w)
      | Inr config \<Rightarrow>
          (case kubernetes_NewForConfig k config of
             Some e \<Rightarrow> (Panicked e, start w)
           | None \<Rightarrow>
               (let s = printed (Printf (''operate is %v'' @ [NL]) [operate]) (start w) in
                if ''clean'' = operate then clean k s
                else
                  (case createNamespace k s of
                     (Panicked e, s1) \<Rightarrow> (Panicked e, s1)
                   | (Returned, s1) \<Rightarrow>
                       (case createDeployment_annotated k s1 of
                          (Panicked e, s2) \<Rightarrow> (Panicked e, s2)
                        | (Returned, s2) \<Rightarrow> createService k s2)))))"

section \<open>A simulated cluster\<close>

text \<open>
  Modelled from the spec: the cluster API server is not part of the repository, and the
  spec's testable properties are stated against a simulated cluster backend. This one holds
  namespaces, pods, deployments and services; a list call answers with the pods of the
  namespace asked for, cut at the limit when the limit is positive; a create adds the object
  and a delete removes it; \<open>rejects\<close> names the requests the cluster refuses, and a
  refused request changes nothing.
\<close>

record cluster =
  cl_namespaces :: "namespace list"
  cl_pods :: "pod list"
  cl_deployments :: "(string \<times> deployment) list"
  cl_services :: "(string \<times> service) list"

definition limited :: "int \<Rightarrow> 'a list \<Rightarrow> 'a list" where
  "limited n xs = (if n \<le> 0 then xs else take (nat n) xs)"

definition pods_in :: "cluster \<Rightarrow> string \<Rightarrow> pod list" where
  "pods_in c ns = filter (\<lambda>d. pod_Namespace d = ns) (cl_pods c)"

definition answer :: "(request \<Rightarrow> bool) \<Rightarrow> request \<Rightarrow> 'a \<Rightarrow> cluster \<Rightarrow> cluster
    \<Rightarrow> (err + 'a) \<times> cluster" where
  "answer rejects r a c' c = (if rejects r then (Inl ''rejected'', c) else (Inr a, c'))"

definition removal :: "(request \<Rightarrow> bool) \<Rightarrow> request \<Rightarrow> cluster \<Rightarrow> cluster
    \<Rightarrow> err option \<times> cluster" where
  "removal rejects r c' c = (if rejects r then (Some ''rejected'', c) else (None, c'))"

definition simulated :: "(request \<Rightarrow> bool) \<Rightarrow> (cluster, pod list) collaborator" where
  "simulated rejects =
     \<lparr>BuildConfigFromFlags = (\<lambda>masterUrl kubeconfigPath.
          Inr \<lparr>Host = masterUrl, APIPath = '''', GroupVersion = None,
               NegotiatedSerializer = None\<rparr>),
      dynamic_NewForConfig = (\<lambda>config. None),
      RESTClientFor = (\<lambda>config. None),
      kubernetes_NewForConfig = (\<lambda>config. None),
      dynamic_List = (\<lambda>g ns opts c.
          answer rejects (DynamicList g ns opts) (limited (Limit opts) (pods_in c ns)) c c),
      FromUnstructured = (\<lambda>u. Inr u),
      rest_Get = (\<lambda>ns resource opts c.
          answer rejects (RestGet ns resource opts) (limited (Limit opts) (pods_in c ns)) c c),
      Namespaces_List = (\<lambda>opts c.
          answer rejects (NamespacesList opts) (limited (Limit opts) (cl_namespaces c)) c c),
      Namespaces_Create = (\<lambda>n c.
          answer rejects (NamespacesCreate n) n (c\<lparr>cl_namespaces := cl_namespaces c @ [n]\<rparr>) c),
      Deployments_Create = (\<lambda>ns d c.
          answer rejects (DeploymentsCreate ns d) d
            (c\<lparr>cl_deployments := cl_deployments c @ [(ns, d)]\<rparr>) c),
      Services_Create = (\<lambda>ns v c.
          answer rejects (ServicesCreate ns v) v
            (c\<lparr>cl_services := cl_services c @ [(ns, v)]\<rparr>) c),
      Services_Delete = (\<lambda>ns name opts c.
          removal rejects (ServicesDelete ns name opts)
            (c\<lparr>cl_services :=
                 filter (\<lambda>(n, v). \<not> (n = ns \<and> sv_Name v = name)) (cl_services c)\<rparr>) c),
      Deployments_Delete = (\<lambda>ns name opts c.
          removal rejects (DeploymentsDelete ns name opts)
            (c\<lparr>cl_deployments :=
                 filter (\<lambda>(n, d). \<not> (n = ns \<and> dp_Name d = name)) (cl_deployments c)\<rparr>) c),
      Namespaces_Delete = (\<lambda>name opts c.
          removal rejects (NamespacesDelete name opts)
            (c\<lparr>cl_namespaces := filter (\<lambda>n. ns_Name n \<noteq> name) (cl_namespaces c)\<rparr>) c)\<rparr>"

text \<open>A process with a home directory and no flag on its command line.\<close>

definition plain_process :: process where
  "plain_process =
     \<lparr>HomeDir = ''/root'', flags = Map.empty,
      filepath_Join = (\<lambda>parts. concat (map (\<lambda>x. ''/'' @ x) parts))\<rparr>"

definition empty_cluster :: cluster where
  "empty_cluster = \<lparr>cl_namespaces = [], cl_pods = [], cl_deployments = [], cl_services = []\<rparr>"

section \<open>Reading a run\<close>

text \<open>The (namespace, phase, name) rows among the printed lines.\<close>

fun tuple_of :: "printf \<Rightarrow> (string \<times> string \<times> string) list" where
  "tuple_of (Printf f [a, b, c]) = [(a, b, c)]"
| "tuple_of (Printf f xs) = []"

definition tuples :: "printf list \<Rightarrow> (string \<times> string \<times> string) list" where
  "tuples out = concat (map tuple_of out)"

fun is_create :: "request \<Rightarrow> bool" where
  "is_create (NamespacesCreate n) = True"
| "is_create (DeploymentsCreate ns d) = True"
| "is_create (ServicesCreate ns v) = True"
| "is_create r = False"

fun is_delete :: "request \<Rightarrow> bool" where
  "is_delete (ServicesDelete ns n opts) = True"
| "is_delete (DeploymentsDelete ns n opts) = True"
| "is_delete (NamespacesDelete n opts) = True"
| "is_delete r = False"

text \<open>Fault injection for the simulated cluster, and two small cluster states.\<close>

definition no_faults :: "request \<Rightarrow> bool" where
  "no_faults r = False"

fun deployment_creates :: "request \<Rightarrow> bool" where
  "deployment_creates (DeploymentsCreate ns d) = True"
| "deployment_creates r = False"




definition clean_process :: process where
  "clean_process = plain_process\<lparr>flags := [''operate'' \<mapsto> ''clean'']\<rparr>"

definition purge_process :: process where
  "purge_process = plain_process\<lparr>flags := [''operate'' \<mapsto> ''purge'']\<rparr>"

definition provisioned_cluster :: cluster where
  "provisioned_cluster =
     \<lparr>cl_namespaces = [namespace_literal], cl_pods = [],
      cl_deployments = [(NAMESPACE, deployment_literal)],
      cl_services = [(NAMESPACE, service_literal)]\<rparr>"

definition system_pod :: pod where
  "system_pod = \<lparr>pod_Namespace = ''kube-system'', pod_Phase = ''Running'', pod_Name = ''dns''\<rparr>"

definition web_pod :: pod where
  "web_pod = \<lparr>pod_Namespace = ''default'', pod_Phase = ''Pending'', pod_Name = ''web''\<rparr>"

definition system_only_cluster :: cluster where
  "system_only_cluster =
     \<lparr>cl_namespaces = [\<lparr>ns_Name = ''default''\<rparr>, \<lparr>ns_Name = ''kube-system''\<rparr>],
      cl_pods = [system_pod], cl_deployments = [], cl_services = []\<rparr>"

definition mixed_cluster :: cluster where
  "mixed_cluster =
     \<lparr>cl_namespaces = [\<lparr>ns_Name = ''kube-system''\<rparr>, \<lparr>ns_Name = ''default''\<rparr>,
                       \<lparr>ns_Name = ''staging''\<rparr>],
      cl_pods = [system_pod, web_pod], cl_deployments = [], cl_services = []\<rparr>"

section \<open>Facts about the runs\<close>

lemmas run_defs = start_def issued_def printed_def

lemmas literal_defs = namespace_literal_def deployment_literal_def
  deployment_literal_annotated_def service_literal_def emptyDeleteOptions_def

lemmas simulation_defs = simulated_def answer_def removal_def plain_process_def
  clean_process_def purge_process_def empty_cluster_def flag_String_def kubeconfig_flag_def
  no_faults_def limited_def pods_in_def

lemmas provisioner_defs = main_provisioner_def clean_def createNamespace_def
  createDeployment_def createService_def Let_def

lemmas provisioner_annotated_defs = main_provisioner_annotated_def clean_def
  createNamespace_def createDeployment_annotated_def createService_def Let_def

text \<open>
  Whatever the cluster answers, the calls of a provisioner run are an initial part of one of
  two fixed sequences.
\<close>

lemma provisioner_calls_prefix:
  "prefix (calls (snd (main_provisioner p k w)))
     (if flag_String p ''operate'' ''create'' = ''clean''
      then [ServicesDelete NAMESPACE SERVICE_NAME emptyDeleteOptions,
            DeploymentsDelete NAMESPACE DEPLOYMENT_NAME emptyDeleteOptions,
            NamespacesDelete NAMESPACE emptyDeleteOptions]
      else [NamespacesCreate namespace_literal,
            DeploymentsCreate NAMESPACE deployment_literal,
            ServicesCreate NAMESPACE service_literal])"
  by (auto simp add: provisioner_defs run_defs
      split: prod.splits sum.splits option.splits outcome.splits)

lemma provisioner_annotated_calls_prefix:
  "prefix (calls (snd (main_provisioner_annotated p k w)))
     (if flag_String p ''operate'' ''create'' = ''clean''
      then [ServicesDelete NAMESPACE SERVICE_NAME emptyDeleteOptions,
            DeploymentsDelete NAMESPACE DEPLOYMENT_NAME emptyDeleteOptions,
            NamespacesDelete NAMESPACE emptyDeleteOptions]
      else [NamespacesCreate namespace_literal,
            DeploymentsCreate NAMESPACE deployment_literal_annotated,
            ServicesCreate NAMESPACE service_literal])"
  by (auto simp add: provisioner_annotated_defs run_defs
      split: prod.splits sum.splits option.splits outcome.splits)

lemma submitted_deployment:
  assumes "DeploymentsCreate ns d \<in> set (calls (snd (main_provisioner p k w)))"
  shows "ns = NAMESPACE \<and> d = deployment_literal"
proof -
  from set_mono_prefix [OF provisioner_calls_prefix [of p k w]] assms
  show ?thesis by (auto split: if_splits)
qed

lemma submitted_deployment_annotated:
  assumes "DeploymentsCreate ns d \<in> set (calls (snd (main_provisioner_annotated p k w)))"
  shows "ns = NAMESPACE \<and> d = deployment_literal_annotated"
proof -
  from set_mono_prefix [OF provisioner_annotated_calls_prefix [of p k w]] assms
  show ?thesis by (auto split: if_splits)
qed

lemma submitted_service:
  assumes "ServicesCreate ns v \<in> set (calls (snd (main_provisioner p k w)))"
  shows "ns = NAMESPACE \<and> v = service_literal"
proof -
  from set_mono_prefix [OF provisioner_calls_prefix [of p k w]] assms
  show ?thesis by (auto split: if_splits)
qed

lemma submitted_service_annotated:
  assumes "ServicesCreate ns v \<in> set (calls (snd (main_provisioner_annotated p k w)))"
  shows "ns = NAMESPACE \<and> v = service_literal"
proof -
  from set_mono_prefix [OF provisioner_annotated_calls_prefix [of p k w]] assms
  show ?thesis by (auto split: if_splits)
qed

text \<open>Three runs on the simulated cluster, evaluated.\<close>

lemma run_create_accepted:
  "main_provisioner plain_process (simulated no_faults) empty_cluster =
     (Returned,
      \<lparr>world = provisioned_cluster,
       calls = [NamespacesCreate namespace_literal,
                DeploymentsCreate NAMESPACE deployment_literal,
                ServicesCreate NAMESPACE service_literal],
       stdout = [Printf (''operate is %v'' @ [NL]) [''create''],
                 Printf (''Create namespace %s '' @ [NL]) [NAMESPACE],
                 Printf (''Create deployment %s '' @ [NL]) [DEPLOYMENT_NAME],
                 Printf (''Create service %s '' @ [NL]) [SERVICE_NAME]]\<rparr>)"
  by (simp add: provisioner_defs run_defs simulation_defs literal_defs provisioned_cluster_def)

lemma run_create_annotated_accepted:
  "calls (snd (main_provisioner_annotated plain_process (simulated no_faults) empty_cluster)) =
     [NamespacesCreate namespace_literal,
      DeploymentsCreate NAMESPACE deployment_literal_annotated,
      ServicesCreate NAMESPACE service_literal]"
  by (simp add: provisioner_annotated_defs run_defs simulation_defs literal_defs)

lemma run_clean_accepted:
  "main_provisioner clean_process (simulated no_faults) provisioned_cluster =
     (Returned,
      \<lparr>world = empty_cluster,
       calls = [ServicesDelete NAMESPACE SERVICE_NAME emptyDeleteOptions,
                DeploymentsDelete NAMESPACE DEPLOYMENT_NAME emptyDeleteOptions,
                NamespacesDelete NAMESPACE emptyDeleteOptions],
       stdout = [Printf (''operate is %v'' @ [NL]) [''clean'']]\<rparr>)"
  by (simp add: provisioner_defs run_defs simulation_defs literal_defs provisioned_cluster_def)

text \<open>
  The runs of the provisioner, path by path. Without a connection nothing is called.
\<close>

lemma provisioner_without_config:
  assumes "BuildConfigFromFlags k '''' (kubeconfig_flag p) = Inl e"
  shows "main_provisioner p k w = (Panicked e, start w)"
  using assms by (simp add: main_provisioner_def)

lemma provisioner_without_clientset:
  assumes "BuildConfigFromFlags k '''' (kubeconfig_flag p) = Inr cfg"
      and "kubernetes_NewForConfig k cfg = Some e"
  shows "main_provisioner p k w = (Panicked e, start w)"
  using assms by (simp add: main_provisioner_def)

text \<open>The four paths of create mode: a refusal at one of the three creates, or none.\<close>

lemma provisioner_create_runs:
  assumes "flag_String p ''operate'' ''create'' \<noteq> ''clean''"
      and "BuildConfigFromFlags k '''' (kubeconfig_flag p) = Inr cfg"
      and "kubernetes_NewForConfig k cfg = None"
  shows "Namespaces_Create k namespace_literal w = (Inl e, w1) \<Longrightarrow>
           main_provisioner p k w =
             (Panicked e,
              \<lparr>world = w1,
               calls = [NamespacesCreate namespace_literal],
               stdout = [Printf (''operate is %v'' @ [NL])
                           [flag_String p ''operate'' ''create'']]\<rparr>)"
    and "Namespaces_Create k namespace_literal w = (Inr r1, w1) \<Longrightarrow>
         Deployments_Create k NAMESPACE deployment_literal w1 = (Inl e, w2) \<Longrightarrow>
           main_provisioner p k w =
             (Panicked e,
              \<lparr>world = w2,
               calls = [NamespacesCreate namespace_literal,
                        DeploymentsCreate NAMESPACE deployment_literal],
               stdout = [Printf (''operate is %v'' @ [NL])
                           [flag_String p ''operate'' ''create''],
                         Printf (''Create namespace %s '' @ [NL]) [ns_Name r1]]\<rparr>)"
    and "Namespaces_Create k namespace_literal w = (Inr r1, w1) \<Longrightarrow>
         Deployments_Create k NAMESPACE deployment_literal w1 = (Inr r2, w2) \<Longrightarrow>
         Services_Create k NAMESPACE service_literal w2 = (Inl e, w3) \<Longrightarrow>
           main_provisioner p k w =
             (Panicked e,
              \<lparr>world = w3,
               calls = [NamespacesCreate namespace_literal,
                        DeploymentsCreate NAMESPACE deployment_literal,
                        ServicesCreate NAMESPACE service_literal],
               stdout = [Printf (''operate is %v'' @ [NL])
                           [flag_String p ''operate'' ''create''],
                         Printf (''Create namespace %s '' @ [NL]) [ns_Name r1],
                         Printf (''Create deployment %s '' @ [NL]) [dp_Name r2]]\<rparr>)"
    and "Namespaces_Create k namespace_literal w = (Inr r1, w1) \<Longrightarrow>
         Deployments_Create k NAMESPACE deployment_literal w1 = (Inr r2, w2) \<Longrightarrow>
         Services_Create k NAMESPACE service_literal w2 = (Inr r3, w3) \<Longrightarrow>
           main_provisioner p k w =
             (Returned,
              \<lparr>world = w3,
               calls = [NamespacesCreate namespace_literal,
                        DeploymentsCreate NAMESPACE deployment_literal,
                        ServicesCreate NAMESPACE service_literal],
               stdout = [Printf (''operate is %v'' @ [NL])
                           [flag_String p ''operate'' ''create''],
                         Printf (''Create namespace %s '' @ [NL]) [ns_Name r1],
                         Printf (''Create deployment %s '' @ [NL]) [dp_Name r2],
                         Printf (''Create service %s '' @ [NL]) [sv_Name r3]]\<rparr>)"
  using assms by (simp_all add: provisioner_defs run_defs)

lemma create_paths:
  obtains (namespace_refused) e w1
      where "Namespaces_Create k namespace_literal w = (Inl e, w1)"
    | (deployment_refused) r1 w1 e w2
      where "Namespaces_Create k namespace_literal w = (Inr r1, w1)"
        and "Deployments_Create k NAMESPACE deployment_literal w1 = (Inl e, w2)"
    | (service_refused) r1 w1 r2 w2 e w3
      where "Namespaces_Create k namespace_literal w = (Inr r1, w1)"
        and "Deployments_Create k NAMESPACE deployment_literal w1 = (Inr r2, w2)"
        and "Services_Create k NAMESPACE service_literal w2 = (Inl e, w3)"
    | (all_accepted) r1 w1 r2 w2 r3 w3
      where "Namespaces_Create k namespace_literal w = (Inr r1, w1)"
        and "Deployments_Create k NAMESPACE deployment_literal w1 = (Inr r2, w2)"
        and "Services_Create k NAMESPACE service_literal w2 = (Inr r3, w3)"
proof -
  obtain a1 w1 where n: "Namespaces_Create k namespace_literal w = (a1, w1)"
    by (cases "Namespaces_Create k namespace_literal w")
  obtain a2 w2 where d: "Deployments_Create k NAMESPACE deployment_literal w1 = (a2, w2)"
    by (cases "Deployments_Create k NAMESPACE deployment_literal w1")
  obtain a3 w3 where v: "Services_Create k NAMESPACE service_literal w2 = (a3, w3)"
    by (cases "Services_Create k NAMESPACE service_literal w2")
  show thesis
  proof (cases a1)
    case (Inl e)
    with n show thesis by (intro namespace_refused) simp
  next
    case r1: (Inr r1)
    show thesis
    proof (cases a2)
      case (Inl e)
      with n d r1 show thesis by (intro deployment_refused) simp_all
    next
      case r2: (Inr r2)
      show thesis
      proof (cases a3)
        case (Inl e)
        with n d v r1 r2 show thesis by (intro service_refused) simp_all
      next
        case (Inr r3)
        with n d v r1 r2 show thesis by (intro all_accepted) simp_all
      qed
    qed
  qed
qed

text \<open>The four paths of clean mode.\<close>

lemma provisioner_clean_runs:
  assumes "flag_String p ''operate'' ''create'' = ''clean''"
      and "BuildConfigFromFlags k '''' (kubeconfig_flag p) = Inr cfg"
      and "kubernetes_NewForConfig k cfg = None"
  shows "Services_Delete k NAMESPACE SERVICE_NAME emptyDeleteOptions w = (Some e, w1) \<Longrightarrow>
           main_provisioner p k w =
             (Panicked e,
              \<lparr>world = w1,
               calls = [ServicesDelete NAMESPACE SERVICE_NAME emptyDeleteOptions],
               stdout = [Printf (''operate is %v'' @ [NL]) [''clean'']]\<rparr>)"
    and "Services_Delete k NAMESPACE SERVICE_NAME emptyDeleteOptions w = (None, w1) \<Longrightarrow>
         Deployments_Delete k NAMESPACE DEPLOYMENT_NAME emptyDeleteOptions w1 = (Some e, w2) \<Longrightarrow>
           main_provisioner p k w =
             (Panicked e,
              \<lparr>world = w2,
               calls = [ServicesDelete NAMESPACE SERVICE_NAME emptyDeleteOptions,
                        DeploymentsDelete NAMESPACE DEPLOYMENT_NAME emptyDeleteOptions],
               stdout = [Printf (''operate is %v'' @ [NL]) [''clean'']]\<rparr>)"
    and "Services_Delete k NAMESPACE SERVICE_NAME emptyDeleteOptions w = (None, w1) \<Longrightarrow>
         Deployments_Delete k NAMESPACE DEPLOYMENT_NAME emptyDeleteOptions w1 = (None, w2) \<Longrightarrow>
         Namespaces_Delete k NAMESPACE emptyDeleteOptions w2 = (Some e, w3) \<Longrightarrow>
           main_provisioner p k w =
             (Panicked e,
              \<lparr>world = w3,
               calls = [ServicesDelete NAMESPACE SERVICE_NAME emptyDeleteOptions,
                        DeploymentsDelete NAMESPACE DEPLOYMENT_NAME emptyDeleteOptions,
                        NamespacesDelete NAMESPACE emptyDeleteOptions],
               stdout = [Printf (''operate is %v'' @ [NL]) [''clean'']]\<rparr>)"
    and "Services_Delete k NAMESPACE SERVICE_NAME emptyDeleteOptions w = (None, w1) \<Longrightarrow>
         Deployments_Delete k NAMESPACE DEPLOYMENT_NAME emptyDeleteOptions w1 = (None, w2) \<Longrightarrow>
         Namespaces_Delete k NAMESPACE emptyDeleteOptions w2 = (None, w3) \<Longrightarrow>
           main_provisioner p k w =
             (Returned,
              \<lparr>world = w3,
               calls = [ServicesDelete NAMESPACE SERVICE_NAME emptyDeleteOptions,
                        DeploymentsDelete NAMESPACE DEPLOYMENT_NAME emptyDeleteOptions,
                        NamespacesDelete NAMESPACE emptyDeleteOptions],
               stdout = [Printf (''operate is %v'' @ [NL]) [''clean'']]\<rparr>)"
  using assms by (simp_all add: provisioner_defs run_defs)

lemma clean_paths:
  obtains (service_refused) e w1
      where "Services_Delete k NAMESPACE SERVICE_NAME emptyDeleteOptions w = (Some e, w1)"
    | (deployment_refused) w1 e w2
      where "Services_Delete k NAMESPACE SERVICE_NAME emptyDeleteOptions w = (None, w1)"
        and "Deployments_Delete k NAMESPACE DEPLOYMENT_NAME emptyDeleteOptions w1 = (Some e, w2)"
    | (namespace_refused) w1 w2 e w3
      where "Services_Delete k NAMESPACE SERVICE_NAME emptyDeleteOptions w = (None, w1)"
        and "Deployments_Delete k NAMESPACE DEPLOYMENT_NAME emptyDeleteOptions w1 = (None, w2)"
        and "Namespaces_Delete k NAMESPACE emptyDeleteOptions w2 = (Some e, w3)"
    | (all_accepted) w1 w2 w3
      where "Services_Delete k NAMESPACE SERVICE_NAME emptyDeleteOptions w = (None, w1)"
        and "Deployments_Delete k NAMESPACE DEPLOYMENT_NAME emptyDeleteOptions w1 = (None, w2)"
        and "Namespaces_Delete k NAMESPACE emptyDeleteOptions w2 = (None, w3)"
proof -
  obtain a1 w1 where s: "Services_Delete k NAMESPACE SERVICE_NAME emptyDeleteOptions w = (a1, w1)"
    by (cases "Services_Delete k NAMESPACE SERVICE_NAME emptyDeleteOptions w")
  obtain a2 w2
    where d: "Deployments_Delete k NAMESPACE DEPLOYMENT_NAME emptyDeleteOptions w1 = (a2, w2)"
    by (cases "Deployments_Delete k NAMESPACE DEPLOYMENT_NAME emptyDeleteOptions w1")
  obtain a3 w3 where n: "Namespaces_Delete k NAMESPACE emptyDeleteOptions w2 = (a3, w3)"
    by (cases "Namespaces_Delete k NAMESPACE emptyDeleteOptions w2")
  show thesis
  proof (cases a1)
    case (Some e)
    with s show thesis by (intro service_refused) simp
  next
    case n1: None
    show thesis
    proof (cases a2)
      case (Some e)
      with s d n1 show thesis by (intro deployment_refused) simp_all
    next
      case n2: None
      show thesis
      proof (cases a3)
        case (Some e)
        with s d n n1 n2 show thesis by (intro namespace_refused) simp_all
      next
        case None
        with s d n n1 n2 show thesis by (intro all_accepted) simp_all
      qed
    qed
  qed
qed

text \<open>The connection is missing, or built: the three ways a provisioner run starts.\<close>

lemma connection_cases:
  obtains (no_config) e where "BuildConfigFromFlags k '''' path = Inl e"
    | (no_clientset) cfg e
      where "BuildConfigFromFlags k '''' path = Inr cfg"
        and "kubernetes_NewForConfig k cfg = Some e"
    | (connected) cfg
      where "BuildConfigFromFlags k '''' path = Inr cfg"
        and "kubernetes_NewForConfig k cfg = None"
proof (cases "BuildConfigFromFlags k '''' path")
  case (Inl e)
  then show thesis by (rule no_config)
next
  case (Inr cfg)
  then show thesis
    by (cases "kubernetes_NewForConfig k cfg") (auto intro: no_clientset connected)
qed

lemma simulated_setup:
  "BuildConfigFromFlags (simulated f) '''' path =
     Inr \<lparr>Host = '''', APIPath = '''', GroupVersion = None, NegotiatedSerializer = None\<rparr>"
  "kubernetes_NewForConfig (simulated f) cfg = None"
  "dynamic_NewForConfig (simulated f) cfg = None"
  "RESTClientFor (simulated f) cfg = None"
  by (simp_all add: simulated_def)

section \<open>The provisioner's claims\<close>

text \<open>
  C2. The provisioner takes the value of \<^verbatim>\<open>-operate\<close> once, before any call on the
  cluster. Once the connection is built, the value \<open>clean\<close> sends the run into the delete
  branch: it issues at least one call and every call it issues is a delete. Every other
  value, and the absent flag, whose default is \<open>create\<close>, sends it into the create branch:
  it issues at least one call and every call it issues is a create.
\<close>

theorem operate_selects_branch:
  assumes "BuildConfigFromFlags k '''' (kubeconfig_flag p) = Inr cfg"
      and "kubernetes_NewForConfig k cfg = None"
  shows "calls (snd (main_provisioner p k w)) \<noteq> [] \<and>
         (flags p ''operate'' = Some ''clean'' \<longrightarrow>
            list_all is_delete (calls (snd (main_provisioner p k w)))) \<and>
         (flags p ''operate'' \<noteq> Some ''clean'' \<longrightarrow>
            list_all is_create (calls (snd (main_provisioner p k w)))) \<and>
         (flags p ''operate'' = None \<longrightarrow>
            hd (stdout (snd (main_provisioner p k w))) =
              Printf (''operate is %v'' @ [NL]) [''create''])"
proof (cases "flags p ''operate'' = Some ''clean''")
  case True
  then have m: "flag_String p ''operate'' ''create'' = ''clean''"
    by (simp add: flag_String_def)
  from True show ?thesis
    by (rule_tac clean_paths [where k = k and w = w])
      (simp_all add: provisioner_clean_runs [OF m assms])
next
  case False
  then have m: "flag_String p ''operate'' ''create'' \<noteq> ''clean''"
    by (auto simp add: flag_String_def split: option.splits)
  have h: "flags p ''operate'' = None \<Longrightarrow> flag_String p ''operate'' ''create'' = ''create''"
    by (simp add: flag_String_def)
  from False h show ?thesis
    by (rule_tac create_paths [where k = k and w = w])
      (simp_all add: provisioner_create_runs [OF m assms])
qed

theorem operate_selects_branch_witness:
  "list_all is_delete
     (calls (snd (main_provisioner clean_process (simulated no_faults) provisioned_cluster))) \<and>
   list_all is_create
     (calls (snd (main_provisioner plain_process (simulated no_faults) empty_cluster))) \<and>
   list_all is_create
     (calls (snd (main_provisioner purge_process (simulated no_faults) empty_cluster)))"
proof -
  have c: "flags clean_process ''operate'' = Some ''clean''"
    by (simp add: clean_process_def)
  have d: "flags plain_process ''operate'' \<noteq> Some ''clean''"
    by (simp add: plain_process_def)
  have u: "flags purge_process ''operate'' \<noteq> Some ''clean''"
    by (simp add: purge_process_def)
  from operate_selects_branch
      [OF simulated_setup(1) [where f = no_faults] simulated_setup(2) [where f = no_faults],
      where p = clean_process and w = provisioned_cluster]
    operate_selects_branch
      [OF simulated_setup(1) [where f = no_faults] simulated_setup(2) [where f = no_faults],
      where p = plain_process and w = empty_cluster]
    operate_selects_branch
      [OF simulated_setup(1) [where f = no_faults] simulated_setup(2) [where f = no_faults],
      where p = purge_process and w = empty_cluster]
    c d u
  show ?thesis by blast
qed

text \<open>
  C3. In create mode, with the connection built, a create that the cluster refuses ends the
  run in a panic with the cluster's message, at that call: the calls issued are the creates
  up to and including the refused one, none of them a delete, and the cluster is left in
  the state in which the refused call returned it, so what the earlier creates made is
  still there. The three conjuncts are a refusal at the namespace, at the deployment and at
  the service.
\<close>

theorem failed_create_is_not_rolled_back:
  assumes "flag_String p ''operate'' ''create'' \<noteq> ''clean''"
      and "BuildConfigFromFlags k '''' (kubeconfig_flag p) = Inr cfg"
      and "kubernetes_NewForConfig k cfg = None"
  shows "(Namespaces_Create k namespace_literal w = (Inl e, w1) \<longrightarrow>
            main_provisioner p k w =
              (Panicked e,
               \<lparr>world = w1,
                calls = [NamespacesCreate namespace_literal],
                stdout = [Printf (''operate is %v'' @ [NL])
                            [flag_String p ''operate'' ''create'']]\<rparr>)) \<and>
         (Namespaces_Create k namespace_literal w = (Inr r1, w1) \<and>
          Deployments_Create k NAMESPACE deployment_literal w1 = (Inl e, w2) \<longrightarrow>
            main_provisioner p k w =
              (Panicked e,
               \<lparr>world = w2,
                calls = [NamespacesCreate namespace_literal,
                         DeploymentsCreate NAMESPACE deployment_literal],
                stdout = [Printf (''operate is %v'' @ [NL])
                            [flag_String p ''operate'' ''create''],
                          Printf (''Create namespace %s '' @ [NL]) [ns_Name r1]]\<rparr>)) \<and>
         (Namespaces_Create k namespace_literal w = (Inr r1, w1) \<and>
          Deployments_Create k NAMESPACE deployment_literal w1 = (Inr r2, w2) \<and>
          Services_Create k NAMESPACE service_literal w2 = (Inl e, w3) \<longrightarrow>
            main_provisioner p k w =
              (Panicked e,
               \<lparr>world = w3,
                calls = [NamespacesCreate namespace_literal,
                         DeploymentsCreate NAMESPACE deployment_literal,
                         ServicesCreate NAMESPACE service_literal],
                stdout = [Printf (''operate is %v'' @ [NL])
                            [flag_String p ''operate'' ''create''],
                          Printf (''Create namespace %s '' @ [NL]) [ns_Name r1],
                          Printf (''Create deployment %s '' @ [NL]) [dp_Name r2]]\<rparr>))"
  using provisioner_create_runs [OF assms] by blast

theorem failed_create_is_not_rolled_back_witness:
  "main_provisioner plain_process (simulated deployment_creates) empty_cluster =
     (Panicked ''rejected'',
      \<lparr>world = empty_cluster\<lparr>cl_namespaces := [namespace_literal]\<rparr>,
       calls = [NamespacesCreate namespace_literal,
                DeploymentsCreate NAMESPACE deployment_literal],
       stdout = [Printf (''operate is %v'' @ [NL]) [flag_String plain_process ''operate'' ''create''],
                 Printf (''Create namespace %s '' @ [NL]) [ns_Name namespace_literal]]\<rparr>)"
proof -
  have m: "flag_String plain_process ''operate'' ''create'' \<noteq> ''clean''"
    by (simp add: flag_String_def plain_process_def)
  have n: "Namespaces_Create (simulated deployment_creates) namespace_literal empty_cluster =
             (Inr namespace_literal, empty_cluster\<lparr>cl_namespaces := [namespace_literal]\<rparr>)"
    by (simp add: simulated_def answer_def empty_cluster_def)
  have d: "Deployments_Create (simulated deployment_creates) NAMESPACE deployment_literal
             (empty_cluster\<lparr>cl_namespaces := [namespace_literal]\<rparr>) =
             (Inl ''rejected'', empty_cluster\<lparr>cl_namespaces := [namespace_literal]\<rparr>)"
    by (simp add: simulated_def answer_def)
  from failed_create_is_not_rolled_back [OF m simulated_setup(1) simulated_setup(2),
      where w = empty_cluster and ?r1.0 = namespace_literal
        and ?w1.0 = "empty_cluster\<lparr>cl_namespaces := [namespace_literal]\<rparr>"
        and e = "''rejected''"
        and ?w2.0 = "empty_cluster\<lparr>cl_namespaces := [namespace_literal]\<rparr>"] n d
  show ?thesis by blast
qed

text \<open>
  C4. In create mode the calls of a run are always an initial part of the sequence
  namespace create, deployment create, service create, and a run that returns has issued
  exactly these three. A later create is issued only after the earlier one has been
  answered without error, on the cluster state that answer came with.
\<close>

theorem create_order:
  assumes "flag_String p ''operate'' ''create'' \<noteq> ''clean''"
  shows "prefix (calls (snd (main_provisioner p k w)))
           [NamespacesCreate namespace_literal,
            DeploymentsCreate NAMESPACE deployment_literal,
            ServicesCreate NAMESPACE service_literal] \<and>
         (fst (main_provisioner p k w) = Returned \<longrightarrow>
            calls (snd (main_provisioner p k w)) =
              [NamespacesCreate namespace_literal,
               DeploymentsCreate NAMESPACE deployment_literal,
               ServicesCreate NAMESPACE service_literal] \<and>
            world (snd (main_provisioner p k w)) =
              snd (Services_Create k NAMESPACE service_literal
                (snd (Deployments_Create k NAMESPACE deployment_literal
                  (snd (Namespaces_Create k namespace_literal w)))))) \<and>
         (DeploymentsCreate NAMESPACE deployment_literal
            \<in> set (calls (snd (main_provisioner p k w))) \<longrightarrow>
            \<not> isl (fst (Namespaces_Create k namespace_literal w))) \<and>
         (ServicesCreate NAMESPACE service_literal
            \<in> set (calls (snd (main_provisioner p k w))) \<longrightarrow>
            \<not> isl (fst (Deployments_Create k NAMESPACE deployment_literal
                         (snd (Namespaces_Create k namespace_literal w)))))"
proof (cases rule: connection_cases [where k = k and path = "kubeconfig_flag p"])
  case no_config
  then show ?thesis by (simp add: provisioner_without_config start_def)
next
  case no_clientset
  then show ?thesis by (simp add: provisioner_without_clientset start_def)
next
  case connected
  show ?thesis
    by (rule create_paths [where k = k and w = w])
      (simp_all add: provisioner_create_runs [OF assms connected])
qed

theorem create_order_witness:
  "calls (snd (main_provisioner plain_process (simulated no_faults) empty_cluster)) =
     [NamespacesCreate namespace_literal,
      DeploymentsCreate NAMESPACE deployment_literal,
      ServicesCreate NAMESPACE service_literal] \<and>
   \<not> isl (fst (Namespaces_Create (simulated no_faults) namespace_literal empty_cluster))"
proof -
  have m: "flag_String plain_process ''operate'' ''create'' \<noteq> ''clean''"
    by (simp add: flag_String_def plain_process_def)
  have r: "fst (main_provisioner plain_process (simulated no_faults) empty_cluster) = Returned"
    by (simp add: run_create_accepted)
  have i: "DeploymentsCreate NAMESPACE deployment_literal
             \<in> set (calls (snd (main_provisioner plain_process (simulated no_faults)
                                  empty_cluster)))"
    by (simp add: run_create_accepted)
  from create_order [OF m, where k = "simulated no_faults" and w = empty_cluster] r i
  show ?thesis by blast
qed

text \<open>
  C5. In clean mode the calls of a run are always an initial part of the sequence service
  delete, deployment delete, namespace delete, each by its fixed name, and a run that
  returns has issued exactly these three. The options of each are the empty ones: no grace
  period, no preconditions, no propagation policy.
\<close>

theorem clean_order:
  assumes "flag_String p ''operate'' ''create'' = ''clean''"
  shows "prefix (calls (snd (main_provisioner p k w)))
           [ServicesDelete NAMESPACE SERVICE_NAME emptyDeleteOptions,
            DeploymentsDelete NAMESPACE DEPLOYMENT_NAME emptyDeleteOptions,
            NamespacesDelete NAMESPACE emptyDeleteOptions] \<and>
         (fst (main_provisioner p k w) = Returned \<longrightarrow>
            calls (snd (main_provisioner p k w)) =
              [ServicesDelete NAMESPACE SERVICE_NAME emptyDeleteOptions,
               DeploymentsDelete NAMESPACE DEPLOYMENT_NAME emptyDeleteOptions,
               NamespacesDelete NAMESPACE emptyDeleteOptions]) \<and>
         GracePeriodSeconds emptyDeleteOptions = None \<and>
         PropagationPolicy emptyDeleteOptions = None \<and>
         OrphanDependents emptyDeleteOptions = None \<and>
         Preconditions emptyDeleteOptions = None \<and>
         DryRun emptyDeleteOptions = []"
proof (cases rule: connection_cases [where k = k and path = "kubeconfig_flag p"])
  case no_config
  then show ?thesis
    by (simp add: provisioner_without_config start_def) (simp add: emptyDeleteOptions_def)
next
  case no_clientset
  then show ?thesis
    by (simp add: provisioner_without_clientset start_def) (simp add: emptyDeleteOptions_def)
next
  case connected
  have o: "GracePeriodSeconds emptyDeleteOptions = None \<and>
           PropagationPolicy emptyDeleteOptions = None \<and>
           OrphanDependents emptyDeleteOptions = None \<and>
           Preconditions emptyDeleteOptions = None \<and>
           DryRun emptyDeleteOptions = []"
    by (simp add: emptyDeleteOptions_def)
  from o show ?thesis
    by (rule_tac clean_paths [where k = k and w = w])
      (simp_all add: provisioner_clean_runs [OF assms connected])
qed

theorem clean_order_witness:
  "calls (snd (main_provisioner clean_process (simulated no_faults) provisioned_cluster)) =
     [ServicesDelete NAMESPACE SERVICE_NAME emptyDeleteOptions,
      DeploymentsDelete NAMESPACE DEPLOYMENT_NAME emptyDeleteOptions,
      NamespacesDelete NAMESPACE emptyDeleteOptions]"
proof -
  have m: "flag_String clean_process ''operate'' ''create'' = ''clean''"
    by (simp add: flag_String_def clean_process_def)
  have r: "fst (main_provisioner clean_process (simulated no_faults) provisioned_cluster)
             = Returned"
    by (simp add: run_clean_accepted)
  from clean_order [OF m, where k = "simulated no_faults" and w = provisioned_cluster] r
  show ?thesis by blast
qed

text \<open>
  C6. In both copies of the provisioner, every deployment submitted has the selector labels
  and the pod template labels \<open>{app: tomcat}\<close>, and every service submitted has the
  selector \<open>{app: tomcat}\<close>.
\<close>

theorem labels_agree:
  "(DeploymentsCreate ns d \<in> set (calls (snd (main_provisioner p k w))) \<or>
    DeploymentsCreate ns d \<in> set (calls (snd (main_provisioner_annotated p k w))) \<longrightarrow>
      dp_Selector_MatchLabels d = [''app'' \<mapsto> ''tomcat''] \<and>
      dp_Template_Labels d = [''app'' \<mapsto> ''tomcat'']) \<and>
   (ServicesCreate ns' v \<in> set (calls (snd (main_provisioner p k w))) \<or>
    ServicesCreate ns' v \<in> set (calls (snd (main_provisioner_annotated p k w))) \<longrightarrow>
      sv_Selector v = [''app'' \<mapsto> ''tomcat''])"
  using submitted_deployment [of ns d p k w] submitted_deployment_annotated [of ns d p k w]
    submitted_service [of ns' v p k w] submitted_service_annotated [of ns' v p k w]
  by (auto simp add: literal_defs)

theorem labels_agree_witness:
  "dp_Selector_MatchLabels deployment_literal = [''app'' \<mapsto> ''tomcat''] \<and>
   dp_Template_Labels deployment_literal = [''app'' \<mapsto> ''tomcat''] \<and>
   sv_Selector service_literal = [''app'' \<mapsto> ''tomcat'']"
proof -
  have d: "DeploymentsCreate NAMESPACE deployment_literal
             \<in> set (calls (snd (main_provisioner plain_process (simulated no_faults)
                                  empty_cluster)))"
    by (simp add: run_create_accepted)
  have v: "ServicesCreate NAMESPACE service_literal
             \<in> set (calls (snd (main_provisioner plain_process (simulated no_faults)
                                  empty_cluster)))"
    by (simp add: run_create_accepted)
  from labels_agree [of NAMESPACE deployment_literal plain_process "simulated no_faults"
      empty_cluster NAMESPACE service_literal] d v
  show ?thesis by blast
qed

text \<open>
  C9, as amended. The annotated copy of the provisioner submits a deployment that asks for
  2 replicas; the other copy submits one that names no replica count.
\<close>

theorem replicas_of_each_copy:
  "(DeploymentsCreate ns d \<in> set (calls (snd (main_provisioner_annotated p k w))) \<longrightarrow>
      dp_Replicas d = Some 2) \<and>
   (DeploymentsCreate ns d \<in> set (calls (snd (main_provisioner p k w))) \<longrightarrow>
      dp_Replicas d = None)"
  using submitted_deployment [of ns d p k w] submitted_deployment_annotated [of ns d p k w]
  by (auto simp add: literal_defs)

theorem replicas_of_each_copy_witness:
  "dp_Replicas deployment_literal_annotated = Some 2 \<and> dp_Replicas deployment_literal = None"
proof -
  have a: "DeploymentsCreate NAMESPACE deployment_literal_annotated
             \<in> set (calls (snd (main_provisioner_annotated plain_process (simulated no_faults)
                                  empty_cluster)))"
    by (simp add: run_create_annotated_accepted)
  have b: "DeploymentsCreate NAMESPACE deployment_literal
             \<in> set (calls (snd (main_provisioner plain_process (simulated no_faults)
                                  empty_cluster)))"
    by (simp add: run_create_accepted)
  from replicas_of_each_copy [of NAMESPACE deployment_literal_annotated plain_process
      "simulated no_faults" empty_cluster]
    replicas_of_each_copy [of NAMESPACE deployment_literal plain_process
      "simulated no_faults" empty_cluster] a b
  show ?thesis by blast
qed

text \<open>
  C9, as stated, fails on the copy at lines 410 to 559: on an empty simulated cluster it
  submits a deployment whose replica count is not 2.
\<close>

theorem two_replicas_counterexample:
  "DeploymentsCreate NAMESPACE deployment_literal
     \<in> set (calls (snd (main_provisioner plain_process (simulated no_faults) empty_cluster))) \<and>
   dp_Replicas deployment_literal \<noteq> Some 2"
  by (simp add: run_create_accepted deployment_literal_def)

text \<open>
  C10. In both copies of the provisioner, every deployment submitted has one container,
  with one port: \<open>http\<close>, container port 8080, protocol SCTP, which is not TCP.
\<close>

theorem container_port_is_sctp:
  assumes "DeploymentsCreate ns d \<in> set (calls (snd (main_provisioner p k w))) \<or>
           DeploymentsCreate ns d \<in> set (calls (snd (main_provisioner_annotated p k w)))"
  shows "map ct_Ports (dp_Template_Containers d) =
           [[\<lparr>cp_Name = ''http'', cp_Protocol = ProtocolSCTP, cp_ContainerPort = 8080\<rparr>]] \<and>
         ProtocolSCTP \<noteq> ProtocolTCP"
  using assms submitted_deployment [of ns d p k w]
    submitted_deployment_annotated [of ns d p k w]
  by (auto simp add: literal_defs ProtocolSCTP_def ProtocolTCP_def)

theorem container_port_is_sctp_witness:
  "map ct_Ports (dp_Template_Containers deployment_literal) =
     [[\<lparr>cp_Name = ''http'', cp_Protocol = ProtocolSCTP, cp_ContainerPort = 8080\<rparr>]] \<and>
   ProtocolSCTP \<noteq> ProtocolTCP"
proof -
  have d: "DeploymentsCreate NAMESPACE deployment_literal
             \<in> set (calls (snd (main_provisioner plain_process (simulated no_faults)
                                  empty_cluster)))"
    by (simp add: run_create_accepted)
  from container_port_is_sctp [of NAMESPACE deployment_literal plain_process
      "simulated no_faults" empty_cluster] d
  show ?thesis by blast
qed

section \<open>Facts about the listers\<close>

lemma tuple_of_rows [simp]:
  "tuple_of (dynamic_row d) = [(pod_Namespace d, pod_Phase d, pod_Name d)]"
  "tuple_of (rest_row d) = [(pod_Namespace d, pod_Phase d, pod_Name d)]"
  "tuple_of (Printf h []) = []"
  by (simp_all add: dynamic_row_def rest_row_def)

lemma tuples_simps [simp]:
  "tuples [] = []"
  "tuples (l # out) = tuple_of l @ tuples out"
  "tuples (out @ out') = tuples out @ tuples out'"
  by (simp_all add: tuples_def)

lemma tuples_dynamic_rows:
  "tuples (map dynamic_row items) = map (\<lambda>d. (pod_Namespace d, pod_Phase d, pod_Name d)) items"
  by (induction items) simp_all

lemma tuples_rest_rows:
  "tuples (map rest_row items) = map (\<lambda>d. (pod_Namespace d, pod_Phase d, pod_Name d)) items"
  by (induction items) simp_all




text \<open>On the simulated cluster without faults the loop prints the pods of every namespace.\<close>

lemma rest_loop_simulated:
  "rest_loop (simulated no_faults) nss s =
     (Returned,
      s\<lparr>calls := calls s @ map (\<lambda>n. RestGet (ns_Name n) ''pods'' \<lparr>Limit = 500\<rparr>) nss,
        stdout := stdout s @
          concat (map (\<lambda>n. map rest_row (limited 500 (pods_in (world s) (ns_Name n)))) nss)\<rparr>)"
proof (induction nss arbitrary: s)
  case Nil
  show ?case by simp
next
  case (Cons x xs)
  have g: "rest_Get (simulated no_faults) (ns_Name x) ''pods'' \<lparr>Limit = 500\<rparr> (world s) =
             (Inr (limited 500 (pods_in (world s) (ns_Name x))), world s)"
    by (simp add: simulated_def answer_def no_faults_def)
  show ?case by (simp add: g Cons.IH issued_def Let_def)
qed

lemma main_dynamic_simulated:
  "main_dynamic p (simulated no_faults) c =
     (Returned,
      \<lparr>world = c,
       calls = [DynamicList \<lparr>gvr_Group = '''', gvr_Version = ''v1'', gvr_Resource = ''pods''\<rparr>
                  ''kube-system'' \<lparr>Limit = 100\<rparr>],
       stdout = Printf dynamic_header [] #
                  map dynamic_row (limited 100 (pods_in c ''kube-system''))\<rparr>)"
  by (simp add: main_dynamic_def simulated_def answer_def no_faults_def run_defs)

lemma main_rest_simulated:
  "main_rest p (simulated no_faults) c =
     (Returned,
      \<lparr>world = c,
       calls = NamespacesList \<lparr>Limit = 0\<rparr> #
                 map (\<lambda>n. RestGet (ns_Name n) ''pods'' \<lparr>Limit = 500\<rparr>) (cl_namespaces c),
       stdout = Printf rest_header [] #
                  concat (map (\<lambda>n. map rest_row (limited 500 (pods_in c (ns_Name n))))
                            (cl_namespaces c))\<rparr>)"
proof -
  have l: "Namespaces_List (simulated no_faults) \<lparr>Limit = 0\<rparr> c = (Inr (cl_namespaces c), c)"
    by (simp add: simulated_def answer_def no_faults_def limited_def)
  show ?thesis
    by (simp add: main_rest_def simulated_setup l rest_loop_simulated run_defs)
qed

lemma tuples_of_namespaces:
  "set (tuples (concat (map (\<lambda>n. map rest_row (limited 500 (pods_in c (ns_Name n)))) nss))) =
     (\<Union>n \<in> set nss.
        (\<lambda>d. (pod_Namespace d, pod_Phase d, pod_Name d)) `
          set (limited 500 (pods_in c (ns_Name n))))"
  by (induction nss) (simp_all add: tuples_rest_rows)

lemma limited_all:
  "int (length xs) \<le> n \<Longrightarrow> limited n xs = xs"
  by (simp add: limited_def)

section \<open>The listers' claims\<close>

text \<open>
  C1, as amended. On a simulated cluster where \<open>kube-system\<close> is among the namespaces
  and holds at most 100 pods, and no other namespace of the cluster holds a pod, the
  dynamic lister and the typed REST lister print the same set of (namespace, phase, name)
  tuples.
\<close>

theorem listers_agree_on_system_pods:
  assumes "''kube-system'' \<in> ns_Name ` set (cl_namespaces c)"
      and "\<forall>n \<in> set (cl_namespaces c).
             ns_Name n \<noteq> ''kube-system'' \<longrightarrow> pods_in c (ns_Name n) = []"
      and "length (pods_in c ''kube-system'') \<le> 100"
  shows "set (tuples (stdout (snd (main_dynamic p (simulated no_faults) c)))) =
         set (tuples (stdout (snd (main_rest p (simulated no_faults) c))))"
proof -
  let ?row = "\<lambda>d. (pod_Namespace d, pod_Phase d, pod_Name d)"
  let ?sys = "pods_in c ''kube-system''"
  have a: "limited 100 ?sys = ?sys" and b: "limited 500 ?sys = ?sys"
    using assms(3) by (simp_all add: limited_all)
  have each: "set (limited 500 (pods_in c (ns_Name n))) =
                (if ns_Name n = ''kube-system'' then set ?sys else {})"
    if "n \<in> set (cl_namespaces c)" for n
    using that assms(2) b by (auto simp add: limited_def)
  have "(\<Union>n \<in> set (cl_namespaces c). ?row ` set (limited 500 (pods_in c (ns_Name n)))) =
          ?row ` set ?sys"
    using assms(1) each by (auto split: if_splits)
  then show ?thesis
    by (simp add: main_dynamic_simulated main_rest_simulated tuples_dynamic_rows
        tuples_of_namespaces a)
qed

theorem listers_agree_on_system_pods_witness:
  "set (tuples (stdout (snd (main_dynamic plain_process (simulated no_faults)
                               system_only_cluster)))) =
   set (tuples (stdout (snd (main_rest plain_process (simulated no_faults)
                               system_only_cluster)))) \<and>
   tuples (stdout (snd (main_rest plain_process (simulated no_faults) system_only_cluster))) =
     [(''kube-system'', ''Running'', ''dns'')]"
proof -
  have 1: "''kube-system'' \<in> ns_Name ` set (cl_namespaces system_only_cluster)"
    by (simp add: system_only_cluster_def)
  have 2: "\<forall>n \<in> set (cl_namespaces system_only_cluster).
             ns_Name n \<noteq> ''kube-system'' \<longrightarrow> pods_in system_only_cluster (ns_Name n) = []"
    by (simp add: system_only_cluster_def pods_in_def system_pod_def)
  have 3: "length (pods_in system_only_cluster ''kube-system'') \<le> 100"
    by (simp add: system_only_cluster_def pods_in_def)
  have 4: "tuples (stdout (snd (main_rest plain_process (simulated no_faults)
                                  system_only_cluster))) =
             [(''kube-system'', ''Running'', ''dns'')]"
    by (simp add: main_rest_simulated system_only_cluster_def pods_in_def system_pod_def
        limited_def tuples_rest_rows)
  from listers_agree_on_system_pods [OF 1 2 3, where p = plain_process] 4
  show ?thesis by blast
qed

text \<open>
  C1, as stated, fails: on a cluster with one pod in \<open>kube-system\<close> and one in
  \<open>default\<close> the REST lister prints both and the dynamic lister prints the first only.
\<close>

theorem listers_differ_counterexample:
  "set (tuples (stdout (snd (main_dynamic plain_process (simulated no_faults) mixed_cluster))))
     \<noteq>
   set (tuples (stdout (snd (main_rest plain_process (simulated no_faults) mixed_cluster))))"
proof -
  have d: "tuples (stdout (snd (main_dynamic plain_process (simulated no_faults)
                                  mixed_cluster))) =
             [(''kube-system'', ''Running'', ''dns'')]"
    by (simp add: main_dynamic_simulated mixed_cluster_def pods_in_def system_pod_def
        web_pod_def limited_def tuples_dynamic_rows)
  have r: "tuples (stdout (snd (main_rest plain_process (simulated no_faults)
                                  mixed_cluster))) =
             [(''kube-system'', ''Running'', ''dns''), (''default'', ''Pending'', ''web'')]"
    by (simp add: main_rest_simulated mixed_cluster_def pods_in_def system_pod_def
        web_pod_def limited_def tuples_rest_rows)
  show ?thesis unfolding d r by simp
qed



text \<open>
  C8. With the connection built, the dynamic lister issues one call and no other: the list
  of resource \<open>pods\<close>, version \<open>v1\<close>, in namespace \<open>kube-system\<close>, with limit 100.
  When the call is answered and the answer converts to a pod list, the run returns, having
  printed the header row and then one row for each item, in order, holding the item's
  namespace, phase and name.
\<close>

theorem dynamic_lister_call_and_rows:
  assumes "BuildConfigFromFlags k '''' (kubeconfig_flag p) = Inr cfg"
      and "dynamic_NewForConfig k cfg = None"
  shows "calls (snd (main_dynamic p k w)) =
           [DynamicList \<lparr>gvr_Group = '''', gvr_Version = ''v1'', gvr_Resource = ''pods''\<rparr>
              ''kube-system'' \<lparr>Limit = 100\<rparr>] \<and>
         (dynamic_List k \<lparr>gvr_Group = '''', gvr_Version = ''v1'', gvr_Resource = ''pods''\<rparr>
              ''kube-system'' \<lparr>Limit = 100\<rparr> w = (Inr u, w') \<and>
          FromUnstructured k u = Inr items \<longrightarrow>
            fst (main_dynamic p k w) = Returned \<and>
            stdout (snd (main_dynamic p k w)) =
              Printf dynamic_header [] #
                map (\<lambda>d. Printf (''%v'' @ [TAB] @ '' %v'' @ [TAB, TAB] @ '' %v'' @ [NL])
                           [pod_Namespace d, pod_Phase d, pod_Name d]) items \<and>
            tuples (stdout (snd (main_dynamic p k w))) =
              map (\<lambda>d. (pod_Namespace d, pod_Phase d, pod_Name d)) items)"
proof -
  let ?g = "\<lparr>gvr_Group = '''', gvr_Version = ''v1'', gvr_Resource = ''pods''\<rparr>"
  obtain a w1 where l: "dynamic_List k ?g ''kube-system'' \<lparr>Limit = 100\<rparr> w = (a, w1)"
    by (cases "dynamic_List k ?g ''kube-system'' \<lparr>Limit = 100\<rparr> w")
  have rows: "map dynamic_row items =
      map (\<lambda>d. Printf (''%v'' @ [TAB] @ '' %v'' @ [TAB, TAB] @ '' %v'' @ [NL])
                 [pod_Namespace d, pod_Phase d, pod_Name d]) items" for items
    by (simp add: dynamic_row_def)
  show ?thesis
  proof (cases a)
    case (Inl e)
    with assms l show ?thesis by (simp add: main_dynamic_def run_defs)
  next
    case (Inr u0)
    show ?thesis
    proof (cases "FromUnstructured k u0")
      case (Inl e)
      with assms l Inr show ?thesis by (auto simp add: main_dynamic_def run_defs)
    next
      case (Inr items0)
      with assms l \<open>a = Inr u0\<close> rows [of items0] tuples_dynamic_rows [of items0]
      show ?thesis by (auto simp add: main_dynamic_def run_defs)
    qed
  qed
qed

theorem dynamic_lister_call_and_rows_witness:
  "calls (snd (main_dynamic plain_process (simulated no_faults) mixed_cluster)) =
     [DynamicList \<lparr>gvr_Group = '''', gvr_Version = ''v1'', gvr_Resource = ''pods''\<rparr>
        ''kube-system'' \<lparr>Limit = 100\<rparr>] \<and>
   fst (main_dynamic plain_process (simulated no_faults) mixed_cluster) = Returned \<and>
   tuples (stdout (snd (main_dynamic plain_process (simulated no_faults) mixed_cluster))) =
     map (\<lambda>d. (pod_Namespace d, pod_Phase d, pod_Name d)) [system_pod]"
proof -
  have l: "dynamic_List (simulated no_faults)
             \<lparr>gvr_Group = '''', gvr_Version = ''v1'', gvr_Resource = ''pods''\<rparr>
             ''kube-system'' \<lparr>Limit = 100\<rparr> mixed_cluster = (Inr [system_pod], mixed_cluster)"
    by (simp add: simulated_def answer_def no_faults_def limited_def pods_in_def
        mixed_cluster_def system_pod_def web_pod_def)
  have c: "FromUnstructured (simulated no_faults) [system_pod] = Inr [system_pod]"
    by (simp add: simulated_def)
  from dynamic_lister_call_and_rows
      [OF simulated_setup(1) [where f = no_faults] simulated_setup(3) [where f = no_faults],
      where p = plain_process and w = mixed_cluster
        and u = "[system_pod]" and w' = mixed_cluster and items = "[system_pod]"] l c
  show ?thesis by blast
qed

end
